theory Spec2Isabelle
  imports Main "HOL-Library.Sublist"
begin

section \<open>Python values\<close>

text \<open>
  The handlers of \<^verbatim>\<open>falcon_graphql_server.py\<close> work on Python values that come out of
  \<^verbatim>\<open>json.loads\<close> and out of the GraphQL engine: \<^verbatim>\<open>None\<close>, booleans, integers, floats,
  strings, lists and (ordered) dictionaries. A Python \<^verbatim>\<open>str\<close> is a \<open>string\<close> whose characters
  are its code points; the model covers code points up to 255. A float is carried by its
  \<^verbatim>\<open>repr\<close> (\<^verbatim>\<open>1.5\<close>, \<^verbatim>\<open>0.0\<close>, \<^verbatim>\<open>nan\<close>), a dictionary by its items in order.
\<close>

datatype json =
    JNull
  | JBool bool
  | JInt int
  | JFloat string
  | JStr string
  | JArr "json list"
  | JObj "(string \<times> json) list"

text \<open>Python's truth value, as \<^verbatim>\<open>if x:\<close> and \<^verbatim>\<open>x and y\<close> test it.\<close>

fun truthy :: "json \<Rightarrow> bool" where
  "truthy JNull = False"
| "truthy (JBool b) = b"
| "truthy (JInt i) = (i \<noteq> 0)"
| "truthy (JFloat r) = (r \<noteq> ''0.0'' \<and> r \<noteq> ''-0.0'')"
| "truthy (JStr s) = (s \<noteq> [])"
| "truthy (JArr xs) = (xs \<noteq> [])"
| "truthy (JObj kvs) = (kvs \<noteq> [])"

text \<open>
  The exceptions the handlers meet. \<^verbatim>\<open>JSONDecodeError\<close> is the one their \<^verbatim>\<open>except\<close> clauses
  catch; \<^verbatim>\<open>json.loads\<close> can also raise \<^verbatim>\<open>RecursionError\<close> (on deeply nested text) and a
  plain \<^verbatim>\<open>ValueError\<close> (on an integer of too many digits), which they do not catch.
\<close>

datatype exn =
    RuntimeError
  | TypeError
  | KeyError
  | UnicodeDecodeError
  | JSONDecodeError
  | RecursionError
  | ValueError

text \<open>\<^verbatim>\<open>sub in s\<close> on two strings: \<open>sub\<close> occurs in \<open>s\<close>.\<close>

fun py_in_str :: "string \<Rightarrow> string \<Rightarrow> bool" where
  "py_in_str sub [] = (sub = [])"
| "py_in_str sub (c # cs) = (prefix sub (c # cs) \<or> py_in_str sub cs)"

text \<open>
  \<^verbatim>\<open>k in v\<close> for a string \<open>k\<close>: a key of a dictionary, an element of a list, a substring of a
  string; every other value is not iterable and raises \<^verbatim>\<open>TypeError\<close>.
\<close>

fun py_contains :: "string \<Rightarrow> json \<Rightarrow> exn + bool" where
  "py_contains k (JObj kvs) = Inr (map_of kvs k \<noteq> None)"
| "py_contains k (JArr xs) = Inr (JStr k \<in> set xs)"
| "py_contains k (JStr s) = Inr (py_in_str k s)"
| "py_contains k JNull = Inl TypeError"
| "py_contains k (JBool b) = Inl TypeError"
| "py_contains k (JInt i) = Inl TypeError"
| "py_contains k (JFloat r) = Inl TypeError"

text \<open>
  \<^verbatim>\<open>v[k]\<close> for a string \<open>k\<close>: the value of a dictionary, \<^verbatim>\<open>KeyError\<close> when the key is
  missing; a list or a string wants an integer index, and nothing else can be subscripted.
\<close>

fun py_getitem :: "json \<Rightarrow> string \<Rightarrow> exn + json" where
  "py_getitem (JObj kvs) k = (case map_of kvs k of None \<Rightarrow> Inl KeyError | Some v \<Rightarrow> Inr v)"
| "py_getitem JNull k = Inl TypeError"
| "py_getitem (JBool b) k = Inl TypeError"
| "py_getitem (JInt i) k = Inl TypeError"
| "py_getitem (JFloat r) k = Inl TypeError"
| "py_getitem (JStr s) k = Inl TypeError"
| "py_getitem (JArr xs) k = Inl TypeError"

subsection \<open>Decimal numerals and \<^verbatim>\<open>str.join\<close>\<close>

fun str_nat :: "nat \<Rightarrow> string" where
  "str_nat n =
     (if n < 10 then [''0123456789'' ! n]
      else str_nat (n div 10) @ [''0123456789'' ! (n mod 10)])"

declare str_nat.simps [simp del]

definition str_int :: "int \<Rightarrow> string" where
  "str_int i = (if i < 0 then CHR ''-'' # str_nat (nat (- i)) else str_nat (nat i))"

fun join :: "string \<Rightarrow> string list \<Rightarrow> string" where
  "join sep [] = []"
| "join sep [x] = x"
| "join sep (x # y # ys) = x @ sep @ join sep (y # ys)"

subsection \<open>\<^verbatim>\<open>json.dumps(..., separators=(',', ':'))\<close>\<close>

text \<open>
  The encoder escapes the double quote, the backslash and every character outside
  \<^verbatim>\<open>' '..'~'\<close>; between items it writes the two separators and nothing else.
\<close>

definition esc_char :: "char \<Rightarrow> string" where
  "esc_char c =
     (let n = (of_char c :: nat) in
      if n = 34 then [CHR 0x5C, CHR 0x22]
      else if n = 92 then [CHR 0x5C, CHR 0x5C]
      else if n = 10 then [CHR 0x5C, CHR ''n'']
      else if n = 13 then [CHR 0x5C, CHR ''r'']
      else if n = 9 then [CHR 0x5C, CHR ''t'']
      else if n = 8 then [CHR 0x5C, CHR ''b'']
      else if n = 12 then [CHR 0x5C, CHR ''f'']
      else if n < 32 \<or> 126 < n then
        [CHR 0x5C, CHR ''u'', CHR ''0'', CHR ''0'',
         ''0123456789abcdef'' ! (n div 16), ''0123456789abcdef'' ! (n mod 16)]
      else [c])"

definition encode_basestring_ascii :: "string \<Rightarrow> string" where
  "encode_basestring_ascii s = CHR 0x22 # concat (map esc_char s) @ [CHR 0x22]"

definition float_dumps :: "string \<Rightarrow> string" where
  "float_dumps r =
     (if r = ''nan'' then ''NaN''
      else if r = ''inf'' then ''Infinity''
      else if r = ''-inf'' then ''-Infinity''
      else r)"

fun dumps :: "json \<Rightarrow> string" where
  "dumps JNull = ''null''"
| "dumps (JBool b) = (if b then ''true'' else ''false'')"
| "dumps (JInt i) = str_int i"
| "dumps (JFloat r) = float_dumps r"
| "dumps (JStr s) = encode_basestring_ascii s"
| "dumps (JArr xs) = ''['' @ join '','' (map dumps xs) @ '']''"
| "dumps (JObj kvs) =
     ''{'' @ join '','' (map (\<lambda>(k, v). encode_basestring_ascii k @ '':'' @ dumps v) kvs) @ ''}''"

section \<open>The engine and the interpreter, as the handlers see them\<close>

text \<open>
  A GraphQL error as the engine reports it. \<^verbatim>\<open>str(e)\<close> is its message; the locations are
  what the handlers leave out of the response.
\<close>

datatype gql_error = GraphQLError (message: string) (locations: "(nat \<times> nat) list")

definition str_error :: "gql_error \<Rightarrow> string" where
  "str_error e = message e"

text \<open>
  What \<^verbatim>\<open>schema.execute\<close> returns: \<^verbatim>\<open>result.data\<close> (\<open>JNull\<close> for \<^verbatim>\<open>None\<close>) and
  \<^verbatim>\<open>result.errors\<close> (\<^verbatim>\<open>None\<close> or a list).
\<close>

record exec_result =
  data :: json
  errors :: "gql_error list option"

text \<open>
  The library functions the handlers call are parameters of the model:
  \<^item> \<open>loads\<close> is \<^verbatim>\<open>json.loads(s, object_pairs_hook=OrderedDict)\<close>: the decoded value, or
    the exception it raises (\<^verbatim>\<open>JSONDecodeError\<close> on text that is not JSON, or another one);
  \<^item> \<open>repr_str\<close> and \<open>repr_odict\<close> are \<^verbatim>\<open>repr\<close> on a string and on an \<^verbatim>\<open>OrderedDict\<close>
    (the latter differs between Python versions);
  \<^item> \<open>execute\<close> is \<^verbatim>\<open>schema.execute(query, variable_values=..., operation_name=...)\<close>, the
    operation name \<open>None\<close> when the call leaves it out.
\<close>

record env =
  loads :: "string \<Rightarrow> exn + json"
  repr_str :: "string \<Rightarrow> string"
  repr_odict :: "(string \<times> json) list \<Rightarrow> string"
  execute :: "string \<Rightarrow> json \<Rightarrow> string option \<Rightarrow> exec_result"

fun py_repr :: "env \<Rightarrow> json \<Rightarrow> string" where
  "py_repr E JNull = ''None''"
| "py_repr E (JBool b) = (if b then ''True'' else ''False'')"
| "py_repr E (JInt i) = str_int i"
| "py_repr E (JFloat r) = r"
| "py_repr E (JStr s) = repr_str E s"
| "py_repr E (JArr xs) = ''['' @ join '', '' (map (py_repr E) xs) @ '']''"
| "py_repr E (JObj kvs) = repr_odict E kvs"

text \<open>\<^verbatim>\<open>str(v)\<close>: a string is itself, every other value is its \<^verbatim>\<open>repr\<close>.\<close>

definition py_str :: "env \<Rightarrow> json \<Rightarrow> string" where
  "py_str E v = (case v of JStr s \<Rightarrow> s | _ \<Rightarrow> py_repr E v)"

section \<open>Requests and responses\<close>

text \<open>
  A value of \<^verbatim>\<open>req.params\<close> is a string, or a list of strings when the parameter is given
  more than once.
\<close>

datatype param = PStr string | PList "string list"

fun truthy_param :: "param \<Rightarrow> bool" where
  "truthy_param (PStr s) = (s \<noteq> [])"
| "truthy_param (PList xs) = (xs \<noteq> [])"

fun str_param :: "env \<Rightarrow> param \<Rightarrow> string" where
  "str_param E (PStr s) = s"
| "str_param E (PList xs) = py_repr E (JArr (map JStr xs))"

datatype http_method = GET | POST | OPTIONS | HEAD | PUT | PATCH | DELETE

text \<open>
  The request as a responder reads it: \<^verbatim>\<open>req.params\<close> (the dictionary Falcon builds from
  the query string, and from a form-encoded body), \<^verbatim>\<open>req.content_type\<close>,
  \<^verbatim>\<open>req.content_length\<close>, and the body. \<open>stream\<close> is \<^verbatim>\<open>req.stream.read().decode('utf-8')\<close>:
  the text of the body, \<open>None\<close> when its bytes are not UTF-8 and the decoding raises
  \<^verbatim>\<open>UnicodeDecodeError\<close>.
\<close>

record request =
  meth :: http_method
  params :: "(string \<times> param) list"
  content_type :: "string option"
  content_length :: "nat option"
  stream :: "string option"

text \<open>
  The response a responder fills in. Falcon hands every responder a fresh one with status
  \<^verbatim>\<open>200 OK\<close>, no body and no headers.
\<close>

record response =
  status :: string
  body :: "string option"
  headers :: "string \<rightharpoonup> string"

definition HTTP_200 :: string where "HTTP_200 = ''200 OK''"
definition HTTP_204 :: string where "HTTP_204 = ''204 No Content''"
definition HTTP_400 :: string where "HTTP_400 = ''400 Bad Request''"
definition HTTP_405 :: string where "HTTP_405 = ''405 Method Not Allowed''"

definition new_response :: response where
  "new_response = \<lparr>status = HTTP_200, body = None, headers = Map.empty\<rparr>"

definition set_header :: "response \<Rightarrow> string \<Rightarrow> string \<Rightarrow> response" where
  "set_header resp name v = resp\<lparr>headers := (headers resp)(name \<mapsto> v)\<rparr>"

text \<open>
  The block every early exit of the handlers repeats: a status and the body
  \<^verbatim>\<open>json.dumps({"errors": [{"message": m}]}, separators=(',', ':'))\<close>.
\<close>

definition error_response :: "response \<Rightarrow> string \<Rightarrow> string \<Rightarrow> response" where
  "error_response resp st m =
     resp\<lparr>status := st,
          body := Some (dumps (JObj [(''errors'', JArr [JObj [(''message'', JStr m)]])]))\<rparr>"

section \<open>The responders of \<^verbatim>\<open>GraphQLResource\<close>\<close>

text \<open>
  A responder leaves early in two ways: it sets a 400 response with one message and
  returns (\<open>Rejected\<close>), or an exception leaves it (\<open>Raised\<close>). When it does neither it has
  the query text, the variables (\<open>JNull\<close> for \<^verbatim>\<open>None\<close>, \<open>JStr []\<close> for the empty string)
  and the operation name it passes to \<^verbatim>\<open>schema.execute\<close>.
\<close>

datatype halt = Raised exn | Rejected string

type_synonym opreq = "string \<times> json \<times> string option"

text \<open>
  The block the handlers repeat around each decoding:
  \<^verbatim>\<open>try: v = json.loads(s, ...) except json.decoder.JSONDecodeError:\<close> set the 400 response
  with the message \<open>m\<close> and return. Any other exception of \<^verbatim>\<open>json.loads\<close> is not caught and
  leaves the handler.
\<close>

definition try_loads :: "env \<Rightarrow> string \<Rightarrow> string \<Rightarrow> halt + json" where
  "try_loads E s m =
     (case loads E s of
        Inr v \<Rightarrow> Inr v
      | Inl e \<Rightarrow> if e = JSONDecodeError then Inl (Rejected m) else Inl (Raised e))"

subsection \<open>The URL parameters (lines 87-115 and 191-214)\<close>

text \<open>
  \<^verbatim>\<open>req.params and 'query' in req.params and req.params['query']\<close>, then
  \<^verbatim>\<open>str(req.params['query'])\<close>; \<open>None\<close> is the \<^verbatim>\<open>else\<close> branch.
\<close>

definition url_query :: "env \<Rightarrow> request \<Rightarrow> string option" where
  "url_query E req =
     (if params req \<noteq> [] then
        (case map_of (params req) ''query'' of
           None \<Rightarrow> None
         | Some p \<Rightarrow> if truthy_param p then Some (str_param E p) else None)
      else None)"

text \<open>
  \<^verbatim>\<open>'variables' in req.params and req.params['variables']\<close>, then \<^verbatim>\<open>json.loads\<close> of its
  \<^verbatim>\<open>str\<close>; \<open>dflt\<close> is what the \<^verbatim>\<open>else\<close> branch assigns (the empty string in \<^verbatim>\<open>on_get\<close>,
  \<^verbatim>\<open>None\<close> in \<^verbatim>\<open>on_post\<close>).
\<close>

definition url_variables :: "env \<Rightarrow> request \<Rightarrow> json \<Rightarrow> halt + json" where
  "url_variables E req dflt =
     (case map_of (params req) ''variables'' of
        None \<Rightarrow> Inr dflt
      | Some p \<Rightarrow>
          if truthy_param p then
            try_loads E (str_param E p) ''Variables are invalid JSON.''
          else Inr dflt)"

definition url_operation_name :: "env \<Rightarrow> request \<Rightarrow> string option" where
  "url_operation_name E req =
     (case map_of (params req) ''operationName'' of
        None \<Rightarrow> None
      | Some p \<Rightarrow> if truthy_param p then Some (str_param E p) else None)"

subsection \<open>The response to an execution result (lines 127-141 and 321-335)\<close>

text \<open>
  \<^verbatim>\<open>if result.data: ... elif result.errors: ... else: raise\<close>. The bare \<^verbatim>\<open>raise\<close> has no
  exception to raise again, which Python reports as a \<^verbatim>\<open>RuntimeError\<close>.
\<close>

definition truthy_errors :: "gql_error list option \<Rightarrow> bool" where
  "truthy_errors es = (case es of None \<Rightarrow> False | Some xs \<Rightarrow> xs \<noteq> [])"

definition err_msgs :: "gql_error list option \<Rightarrow> json list" where
  "err_msgs es =
     (case es of None \<Rightarrow> [] | Some xs \<Rightarrow> map (\<lambda>i. JObj [(''message'', JStr (str_error i))]) xs)"

definition respond :: "exec_result \<Rightarrow> response \<Rightarrow> exn + response" where
  "respond result resp =
     (if truthy (data result) then
        Inr (resp\<lparr>status := HTTP_200,
                  body := Some (dumps (JObj [(''data'', data result)]))\<rparr>)
      else if truthy_errors (errors result) then
        Inr (resp\<lparr>status := HTTP_400,
                  body := Some (dumps (JObj [(''errors'', JArr (err_msgs (errors result)))]))\<rparr>)
      else Inl RuntimeError)"

text \<open>
  The end of both handlers: an early exit becomes the 400 response or the exception; otherwise
  the engine runs on the request and its result is formatted.
\<close>

definition finish :: "env \<Rightarrow> halt + opreq \<Rightarrow> response \<Rightarrow> exn + response" where
  "finish E r resp =
     (case r of
        Inl (Raised e) \<Rightarrow> Inl e
      | Inl (Rejected m) \<Rightarrow> Inr (error_response resp HTTP_400 m)
      | Inr (query, variables, operation_name) \<Rightarrow>
          respond (execute E query variables operation_name) resp)"

subsection \<open>\<^verbatim>\<open>on_get\<close> (lines 70-141)\<close>

definition get_request :: "env \<Rightarrow> request \<Rightarrow> halt + opreq" where
  "get_request E req =
     (case url_query E req of
        None \<Rightarrow> Inl (Rejected ''Must provide query string.'')
      | Some query \<Rightarrow>
          (case url_variables E req (JStr []) of
             Inl h \<Rightarrow> Inl h
           | Inr variables \<Rightarrow> Inr (query, variables, url_operation_name E req)))"

definition on_get :: "env \<Rightarrow> request \<Rightarrow> response \<Rightarrow> exn + response" where
  "on_get E req resp = finish E (get_request E req) resp"

subsection \<open>\<^verbatim>\<open>on_post\<close> (lines 143-335)\<close>

text \<open>\<^verbatim>\<open>req.content_type and s in req.content_type\<close>.\<close>

definition content_type_has :: "request \<Rightarrow> string \<Rightarrow> bool" where
  "content_type_has req s =
     (case content_type req of None \<Rightarrow> False | Some ct \<Rightarrow> ct \<noteq> [] \<and> py_in_str s ct)"

text \<open>
  Lines 242-252. \<open>query\<close> is what the URL gave, \<open>pd\<close> is \<^verbatim>\<open>req.context['post_data']\<close>. The
  conjunction is evaluated left to right, so \<^verbatim>\<open>'query' in pd\<close> is reached, and can raise,
  only when the URL gave no query and \<open>pd\<close> is true.
\<close>

definition json_query :: "env \<Rightarrow> string option \<Rightarrow> json \<Rightarrow> halt + string" where
  "json_query E query pd =
     (if query = None \<and> truthy pd then
        (case py_contains ''query'' pd of
           Inl e \<Rightarrow> Inl (Raised e)
         | Inr True \<Rightarrow>
             (case py_getitem pd ''query'' of
                Inl e \<Rightarrow> Inl (Raised e)
              | Inr v \<Rightarrow> Inr (py_str E v))
         | Inr False \<Rightarrow> Inl (Rejected ''Must provide query string.''))
      else
        (case query of
           None \<Rightarrow> Inl (Rejected ''Must provide query string.'')
         | Some q \<Rightarrow> Inr q))"

text \<open>Lines 254-273. \<open>variables\<close> is what the URL gave, \<open>JNull\<close> when it gave none.\<close>

definition json_variables :: "env \<Rightarrow> json \<Rightarrow> json \<Rightarrow> halt + json" where
  "json_variables E variables pd =
     (if variables = JNull \<and> truthy pd then
        (case py_contains ''variables'' pd of
           Inl e \<Rightarrow> Inl (Raised e)
         | Inr True \<Rightarrow>
             (case py_getitem pd ''variables'' of
                Inl e \<Rightarrow> Inl (Raised e)
              | Inr v \<Rightarrow>
                  if truthy v then
                    try_loads E (py_str E v) ''Variables are invalid JSON.''
                  else Inr (JStr []))
         | Inr False \<Rightarrow> Inr (JStr []))
      else if variables = JNull then Inr (JStr [])
      else Inr variables)"

text \<open>Lines 275-279. Here the source does not test \<open>pd\<close> before \<^verbatim>\<open>'operationName' in pd\<close>.\<close>

definition json_operation_name :: "env \<Rightarrow> string option \<Rightarrow> json \<Rightarrow> halt + string option" where
  "json_operation_name E operation_name pd =
     (if operation_name = None then
        (case py_contains ''operationName'' pd of
           Inl e \<Rightarrow> Inl (Raised e)
         | Inr True \<Rightarrow>
             (case py_getitem pd ''operationName'' of
                Inl e \<Rightarrow> Inl (Raised e)
              | Inr v \<Rightarrow> Inr (if truthy v then Some (py_str E v) else None))
         | Inr False \<Rightarrow> Inr None)
      else Inr operation_name)"

text \<open>Lines 216-279: the \<^verbatim>\<open>application/json\<close> branch.\<close>

definition json_branch ::
  "env \<Rightarrow> request \<Rightarrow> string option \<Rightarrow> json \<Rightarrow> string option \<Rightarrow> halt + opreq" where
  "json_branch E req query variables operation_name =
     (if content_length req = None \<or> content_length req = Some 0 then
        Inl (Rejected ''POST body sent invalid JSON.'')
      else
        (case stream req of
           None \<Rightarrow> Inl (Raised UnicodeDecodeError)
         | Some raw_json \<Rightarrow>
             (case try_loads E raw_json ''POST body sent invalid JSON.'' of
                Inl h \<Rightarrow> Inl h
              | Inr pd \<Rightarrow>
                  (case json_query E query pd of
                     Inl h \<Rightarrow> Inl h
                   | Inr q \<Rightarrow>
                       (case json_variables E variables pd of
                          Inl h \<Rightarrow> Inl h
                        | Inr v \<Rightarrow>
                            (case json_operation_name E operation_name pd of
                               Inl h \<Rightarrow> Inl h
                             | Inr opn \<Rightarrow> Inr (q, v, opn)))))))"

text \<open>Lines 281-296: the \<^verbatim>\<open>application/graphql\<close> branch.\<close>

definition graphql_branch ::
  "request \<Rightarrow> string option \<Rightarrow> json \<Rightarrow> string option \<Rightarrow> halt + opreq" where
  "graphql_branch req query variables operation_name =
     (case stream req of
        None \<Rightarrow> Inl (Raised UnicodeDecodeError)
      | Some pd \<Rightarrow>
          if query = None \<and> pd \<noteq> [] then Inr (pd, variables, operation_name)
          else
            (case query of
               None \<Rightarrow> Inl (Rejected ''Must provide query string.'')
             | Some q \<Rightarrow> Inr (q, variables, operation_name)))"

text \<open>
  Lines 191-309: the URL parameters first, then the branch the content type selects; with any
  other content type the URL alone decides (a form-encoded body is already in \<^verbatim>\<open>req.params\<close>).
\<close>

definition post_request :: "env \<Rightarrow> request \<Rightarrow> halt + opreq" where
  "post_request E req =
     (case url_variables E req JNull of
        Inl h \<Rightarrow> Inl h
      | Inr variables \<Rightarrow>
          if content_type_has req ''application/json'' then
            json_branch E req (url_query E req) variables (url_operation_name E req)
          else if content_type_has req ''application/graphql'' then
            graphql_branch req (url_query E req) variables (url_operation_name E req)
          else
            (case url_query E req of
               None \<Rightarrow> Inl (Rejected ''Must provide query string.'')
             | Some q \<Rightarrow> Inr (q, variables, url_operation_name E req)))"

definition on_post :: "env \<Rightarrow> request \<Rightarrow> response \<Rightarrow> exn + response" where
  "on_post E req resp = finish E (post_request E req) resp"

subsection \<open>The other methods, the hook and the route\<close>

definition on_options :: "request \<Rightarrow> response \<Rightarrow> exn + response" where
  "on_options req resp = Inr (resp\<lparr>status := HTTP_204\<rparr>)"

definition on_head :: "request \<Rightarrow> response \<Rightarrow> exn + response" where
  "on_head req resp = Inr resp"

definition on_put :: "request \<Rightarrow> response \<Rightarrow> exn + response" where
  "on_put req resp =
     Inr (error_response resp HTTP_405 ''GraphQL only supports GET and POST requests.'')"

definition on_patch :: "request \<Rightarrow> response \<Rightarrow> exn + response" where
  "on_patch req resp =
     Inr (error_response resp HTTP_405 ''GraphQL only supports GET and POST requests.'')"

definition on_delete :: "request \<Rightarrow> response \<Rightarrow> exn + response" where
  "on_delete req resp =
     Inr (error_response resp HTTP_405 ''GraphQL only supports GET and POST requests.'')"

definition set_graphql_allow_header :: "request \<Rightarrow> response \<Rightarrow> response" where
  "set_graphql_allow_header req resp = set_header resp ''Allow'' ''GET, POST, OPTIONS''"

text \<open>
  \<^verbatim>\<open>@falcon.after(hook)\<close> on the class wraps each of its responders: the hook runs on the
  response once the responder has returned, and not when an exception left it.
\<close>

definition falcon_after ::
  "(request \<Rightarrow> response \<Rightarrow> response) \<Rightarrow> (request \<Rightarrow> response \<Rightarrow> exn + response) \<Rightarrow>
   request \<Rightarrow> response \<Rightarrow> exn + response" where
  "falcon_after hook responder req resp =
     (case responder req resp of Inl e \<Rightarrow> Inl e | Inr resp' \<Rightarrow> Inr (hook req resp'))"

text \<open>
  \<^verbatim>\<open>add_route('/graphql', GraphQLResource())\<close>: Falcon calls the responder named after the
  request's method on a fresh response.
\<close>

definition graphql_route :: "env \<Rightarrow> request \<Rightarrow> exn + response" where
  "graphql_route E req =
     falcon_after set_graphql_allow_header
       (case meth req of
          GET \<Rightarrow> on_get E
        | POST \<Rightarrow> on_post E
        | OPTIONS \<Rightarrow> on_options
        | HEAD \<Rightarrow> on_head
        | PUT \<Rightarrow> on_put
        | PATCH \<Rightarrow> on_patch
        | DELETE \<Rightarrow> on_delete)
       req new_response"

section \<open>Requests, an engine and a decoder for the examples\<close>

text \<open>
  \<open>get_url ps\<close> is \<^verbatim>\<open>GET /graphql\<close> with the URL parameters \<open>ps\<close> and no body;
  \<open>post_body ct ps b\<close> is \<^verbatim>\<open>POST /graphql\<close> with content type \<open>ct\<close>, URL parameters \<open>ps\<close> and
  the body text \<open>b\<close>, as \<^verbatim>\<open>curl -H 'Content-Type: ct' -d 'b'\<close> sends it.
\<close>

definition get_url :: "(string \<times> param) list \<Rightarrow> request" where
  "get_url ps =
     \<lparr>meth = GET, params = ps, content_type = None, content_length = None, stream = Some []\<rparr>"

definition post_body :: "string \<Rightarrow> (string \<times> param) list \<Rightarrow> string \<Rightarrow> request" where
  "post_body ct ps b =
     \<lparr>meth = POST, params = ps, content_type = Some ct, content_length = Some (length b),
      stream = Some b\<rparr>"

text \<open>
  \<^verbatim>\<open>json.loads\<close> on the texts the examples send. Each listed text is valid JSON and is mapped
  to its value; the one other text the examples send, \<^verbatim>\<open>{bad\<close>, is not JSON and raises
  \<^verbatim>\<open>JSONDecodeError\<close>.
\<close>

definition sample_loads :: "string \<Rightarrow> exn + json" where
  \<open>sample_loads s =
     (if s = ''{"query":"{q2}"}'' then Inr (JObj [(''query'', JStr ''{q2}'')])
      else if s = ''{"query":"{hello}"}'' then Inr (JObj [(''query'', JStr ''{hello}'')])
      else if s = ''{"query":""}'' then Inr (JObj [(''query'', JStr [])])
      else if s = ''{"query":42,"operationName":7}'' then
        Inr (JObj [(''query'', JInt 42), (''operationName'', JInt 7)])
      else if s = ''{"variables":"[1]"}'' then Inr (JObj [(''variables'', JStr ''[1]'')])
      else if s = ''{"query":"{hello}","variables":"{bad"}'' then
        Inr (JObj [(''query'', JStr ''{hello}''), (''variables'', JStr ''{bad'')])
      else if s = ''[1]'' then Inr (JArr [JInt 1])
      else if s = ''5'' then Inr (JInt 5)
      else if s = ''null'' then Inr JNull
      else Inl JSONDecodeError)\<close>

text \<open>
  An engine for the schema of the source: \<^verbatim>\<open>{hello}\<close> resolves to the greeting, a selection
  that \<^verbatim>\<open>@skip\<close> empties gives an empty \<open>data\<close> object, and any other document is reported as
  one error with a location.
\<close>

definition sample_execute :: "string \<Rightarrow> json \<Rightarrow> string option \<Rightarrow> exec_result" where
  \<open>sample_execute q v opn =
     (if q = ''{hello}'' then
        \<lparr>data = JObj [(''hello'', JStr ''Hello world!'')], errors = None\<rparr>
      else if q = ''{hello @skip(if: true)}'' then \<lparr>data = JObj [], errors = None\<rparr>
      else \<lparr>data = JNull, errors = Some [GraphQLError ''Cannot query field.'' [(1, 2)]]\<rparr>)\<close>

text \<open>
  \<open>repr_str\<close> quotes a text that needs no escape; the examples take the \<^verbatim>\<open>repr\<close> of no
  dictionary but the empty one.
\<close>

definition sample_env :: env where
  "sample_env =
     \<lparr>loads = sample_loads,
      repr_str = (\<lambda>s. CHR 0x27 # s @ [CHR 0x27]),
      repr_odict = (\<lambda>kvs. ''OrderedDict()''),
      execute = sample_execute\<rparr>"

text \<open>An engine that breaks its contract: it returns neither data nor errors.\<close>

definition silent_env :: env where
  "silent_env = sample_env\<lparr>execute := (\<lambda>q v opn. \<lparr>data = JNull, errors = None\<rparr>)\<rparr>"

section \<open>Facts about the parts\<close>

subsection \<open>The bodies of the fixed error responses\<close>

lemma errors_body_query:
  \<open>dumps (JObj [(''errors'', JArr [JObj [(''message'', JStr ''Must provide query string.'')]])]) =
     ''{"errors":[{"message":"Must provide query string."}]}''\<close>
  by (simp add: encode_basestring_ascii_def esc_char_def)

lemma errors_body_variables:
  \<open>dumps (JObj [(''errors'', JArr [JObj [(''message'', JStr ''Variables are invalid JSON.'')]])]) =
     ''{"errors":[{"message":"Variables are invalid JSON."}]}''\<close>
  by (simp add: encode_basestring_ascii_def esc_char_def)

lemma errors_body_post:
  \<open>dumps (JObj [(''errors'', JArr [JObj [(''message'', JStr ''POST body sent invalid JSON.'')]])]) =
     ''{"errors":[{"message":"POST body sent invalid JSON."}]}''\<close>
  by (simp add: encode_basestring_ascii_def esc_char_def)

lemma errors_body_method:
  \<open>dumps (JObj [(''errors'', JArr [JObj [(''message'',
       JStr ''GraphQL only supports GET and POST requests.'')]])]) =
     ''{"errors":[{"message":"GraphQL only supports GET and POST requests."}]}''\<close>
  by (simp add: encode_basestring_ascii_def esc_char_def)


lemma errors_body_sample:
  \<open>dumps (JObj [(''errors'', JArr [JObj [(''message'', JStr ''Cannot query field.'')]])]) =
     ''{"errors":[{"message":"Cannot query field."}]}''\<close>
  by (simp add: encode_basestring_ascii_def esc_char_def)

lemma rejected_query:
  \<open>error_response resp HTTP_400 ''Must provide query string.'' =
     resp\<lparr>status := HTTP_400,
          body := Some ''{"errors":[{"message":"Must provide query string."}]}''\<rparr>\<close>
  unfolding error_response_def errors_body_query ..

lemma rejected_variables:
  \<open>error_response resp HTTP_400 ''Variables are invalid JSON.'' =
     resp\<lparr>status := HTTP_400,
          body := Some ''{"errors":[{"message":"Variables are invalid JSON."}]}''\<rparr>\<close>
  unfolding error_response_def errors_body_variables ..

lemma rejected_post:
  \<open>error_response resp HTTP_400 ''POST body sent invalid JSON.'' =
     resp\<lparr>status := HTTP_400,
          body := Some ''{"errors":[{"message":"POST body sent invalid JSON."}]}''\<rparr>\<close>
  unfolding error_response_def errors_body_post ..

subsection \<open>The end of a handler, the hook and the route\<close>

lemma finish_Rejected: "finish E (Inl (Rejected m)) resp = Inr (error_response resp HTTP_400 m)"
  by (simp add: finish_def)

lemma finish_Raised: "finish E (Inl (Raised e)) resp = Inl e"
  by (simp add: finish_def)

lemma finish_Inr: "finish E (Inr (q, v, opn)) resp = respond (execute E q v opn) resp"
  by (simp add: finish_def)

lemma route_GET:
  "meth req = GET \<Longrightarrow>
   graphql_route E req = falcon_after set_graphql_allow_header (on_get E) req new_response"
  by (simp add: graphql_route_def)

lemma route_POST:
  "meth req = POST \<Longrightarrow>
   graphql_route E req = falcon_after set_graphql_allow_header (on_post E) req new_response"
  by (simp add: graphql_route_def)

lemma after_Inr:
  "r req resp = Inr resp' \<Longrightarrow>
   falcon_after set_graphql_allow_header r req resp =
     Inr (resp'\<lparr>headers := (headers resp')(''Allow'' \<mapsto> ''GET, POST, OPTIONS'')\<rparr>)"
  by (simp add: falcon_after_def set_graphql_allow_header_def set_header_def)

lemma after_Inl: "r req resp = Inl e \<Longrightarrow> falcon_after h r req resp = Inl e"
  by (simp add: falcon_after_def)

lemma after_allow:
  "falcon_after set_graphql_allow_header r req resp = Inr resp' \<Longrightarrow>
   headers resp' ''Allow'' = Some ''GET, POST, OPTIONS''"
  by (auto simp: falcon_after_def set_graphql_allow_header_def set_header_def split: sum.splits)

subsection \<open>Decoding\<close>

lemma try_loads_value: "loads E s = Inr v \<Longrightarrow> try_loads E s m = Inr v"
  by (simp add: try_loads_def)

lemma try_loads_invalid: "loads E s = Inl JSONDecodeError \<Longrightarrow> try_loads E s m = Inl (Rejected m)"
  by (simp add: try_loads_def)

lemma try_loads_raises:
  "loads E s = Inl e \<Longrightarrow> e \<noteq> JSONDecodeError \<Longrightarrow> try_loads E s m = Inl (Raised e)"
  by (simp add: try_loads_def)

lemma try_loads_Inl:
  assumes "try_loads E s m = Inl h"
  shows "h = Rejected m \<or> (\<exists>e. loads E s = Inl e \<and> e \<noteq> JSONDecodeError \<and> h = Raised e)"
  using assms by (auto simp: try_loads_def split: sum.splits if_splits)

subsection \<open>The URL parameters\<close>

lemma url_query_None:
  "url_query E req = None \<longleftrightarrow>
     (case map_of (params req) ''query'' of None \<Rightarrow> True | Some p \<Rightarrow> \<not> truthy_param p)"
  by (cases "params req") (auto simp: url_query_def split: option.splits)

lemma url_query_Some:
  "map_of (params req) ''query'' = Some p \<Longrightarrow> truthy_param p \<Longrightarrow>
   url_query E req = Some (str_param E p)"
  by (cases "params req") (auto simp: url_query_def)

lemma url_variables_Rejected:
  "map_of (params req) ''variables'' = Some p \<Longrightarrow> truthy_param p \<Longrightarrow>
   loads E (str_param E p) = Inl JSONDecodeError \<Longrightarrow>
   url_variables E req dflt = Inl (Rejected ''Variables are invalid JSON.'')"
  by (simp add: url_variables_def try_loads_invalid)

lemma url_variables_Some:
  "map_of (params req) ''variables'' = Some p \<Longrightarrow> truthy_param p \<Longrightarrow>
   loads E (str_param E p) = Inr v \<Longrightarrow> url_variables E req dflt = Inr v"
  by (simp add: url_variables_def try_loads_value)

lemma url_variables_Inl:
  assumes "url_variables E req dflt = Inl h"
  shows "h = Rejected ''Variables are invalid JSON.'' \<or>
    (\<exists>e s. loads E s = Inl e \<and> e \<noteq> JSONDecodeError \<and> h = Raised e)"
  using assms
  by (auto simp: url_variables_def split: option.splits if_splits dest!: try_loads_Inl)

lemma url_operation_name_Some:
  "map_of (params req) ''operationName'' = Some p \<Longrightarrow> truthy_param p \<Longrightarrow>
   url_operation_name E req = Some (str_param E p)"
  by (simp add: url_operation_name_def)

lemma url_ignores_body:
  "url_query E (req\<lparr>content_type := c, content_length := n, stream := s\<rparr>) = url_query E req"
  "url_variables E (req\<lparr>content_type := c, content_length := n, stream := s\<rparr>) d =
     url_variables E req d"
  "url_operation_name E (req\<lparr>content_type := c, content_length := n, stream := s\<rparr>) =
     url_operation_name E req"
  by (simp_all add: url_query_def url_variables_def url_operation_name_def)


subsection \<open>The response to an execution result\<close>

lemma dumps_data: \<open>dumps (JObj [(''data'', d)]) = ''{"data":'' @ dumps d @ ''}''\<close>
  by (simp add: encode_basestring_ascii_def esc_char_def)

lemma respond_data:
  "truthy (data r) \<Longrightarrow>
   respond r resp =
     Inr (resp\<lparr>status := HTTP_200, body := Some (dumps (JObj [(''data'', data r)]))\<rparr>)"
  by (simp add: respond_def)

lemma respond_errors:
  "\<not> truthy (data r) \<Longrightarrow> errors r = Some es \<Longrightarrow> es \<noteq> [] \<Longrightarrow>
   respond r resp =
     Inr (resp\<lparr>status := HTTP_400,
               body := Some (dumps (JObj [(''errors'',
                 JArr (map (\<lambda>e. JObj [(''message'', JStr (message e))]) es))]))\<rparr>)"
  by (simp add: respond_def truthy_errors_def err_msgs_def str_error_def)

lemma respond_raises:
  "\<not> truthy (data r) \<Longrightarrow> \<not> truthy_errors (errors r) \<Longrightarrow> respond r resp = Inl RuntimeError"
  by (simp add: respond_def)

lemma respond_Inl:
  "isl (respond r resp) \<longleftrightarrow> \<not> truthy (data r) \<and> \<not> truthy_errors (errors r)"
  by (simp add: respond_def)

subsection \<open>The branches of \<^verbatim>\<open>on_post\<close>\<close>

lemma json_query_keeps: "json_query E (Some q0) pd = Inr q \<Longrightarrow> q = q0"
  by (simp add: json_query_def)

lemma json_query_from_body:
  "map_of kvs ''query'' = Some v \<Longrightarrow> json_query E None (JObj kvs) = Inr (py_str E v)"
  by (cases kvs) (auto simp: json_query_def)

lemma json_variables_keeps: "v0 \<noteq> JNull \<Longrightarrow> json_variables E v0 pd = Inr v \<Longrightarrow> v = v0"
  by (simp add: json_variables_def)

lemma json_variables_absent:
  "map_of kvs ''variables'' = None \<Longrightarrow> json_variables E JNull (JObj kvs) = Inr (JStr [])"
  by (simp add: json_variables_def)

lemma json_variables_invalid:
  "map_of kvs ''variables'' = Some v \<Longrightarrow> truthy v \<Longrightarrow>
   loads E (py_str E v) = Inl JSONDecodeError \<Longrightarrow>
   json_variables E JNull (JObj kvs) = Inl (Rejected ''Variables are invalid JSON.'')"
  by (cases kvs) (auto simp: json_variables_def try_loads_invalid)

lemma json_variables_object:
  assumes "json_variables E v0 (JObj kvs) = Inl h"
  shows "h = Rejected ''Variables are invalid JSON.'' \<or>
    (\<exists>e s. loads E s = Inl e \<and> e \<noteq> JSONDecodeError \<and> h = Raised e)"
  using assms
  by (cases "map_of kvs ''variables''")
    (auto simp: json_variables_def split: if_splits option.splits dest!: try_loads_Inl)

lemma json_operation_name_keeps:
  "json_operation_name E (Some o0) pd = Inr opn \<Longrightarrow> opn = Some o0"
  by (simp add: json_operation_name_def)

lemma json_operation_name_object:
  "json_operation_name E o0 (JObj kvs) =
     Inr (case o0 of
            Some x \<Rightarrow> Some x
          | None \<Rightarrow>
              (case map_of kvs ''operationName'' of
                 None \<Rightarrow> None
               | Some w \<Rightarrow> if truthy w then Some (py_str E w) else None))"
  by (auto simp: json_operation_name_def split: option.splits)

lemma json_branch_Inr:
  assumes "json_branch E req q0 v0 o0 = Inr (q, v, opn)"
  obtains pd where "json_query E q0 pd = Inr q" and "json_variables E v0 pd = Inr v"
    and "json_operation_name E o0 pd = Inr opn"
  using assms
  by (auto simp: json_branch_def split: if_splits option.splits sum.splits)

lemma json_branch_body:
  assumes "content_length req = Some n" and "0 < n"
    and "stream req = Some raw" and "loads E raw = Inr pd"
  shows "json_branch E req q0 v0 o0 =
     (case json_query E q0 pd of
        Inl h \<Rightarrow> Inl h
      | Inr q \<Rightarrow>
          (case json_variables E v0 pd of
             Inl h \<Rightarrow> Inl h
           | Inr v \<Rightarrow>
               (case json_operation_name E o0 pd of
                  Inl h \<Rightarrow> Inl h
                | Inr opn \<Rightarrow> Inr (q, v, opn))))"
  using assms by (simp add: json_branch_def try_loads_value)

lemma graphql_branch_Inr:
  assumes "graphql_branch req q0 v0 o0 = Inr (q, v, opn)"
  shows "v = v0 \<and> opn = o0 \<and> (case q0 of None \<Rightarrow> stream req = Some q | Some q1 \<Rightarrow> q = q1)"
  using assms
  by (auto simp: graphql_branch_def split: if_splits option.splits)

lemma post_request_json:
  "content_type_has req ''application/json'' \<Longrightarrow> url_variables E req JNull = Inr v0 \<Longrightarrow>
   post_request E req = json_branch E req (url_query E req) v0 (url_operation_name E req)"
  by (simp add: post_request_def)


lemma post_request_url_rejected:
  "url_variables E req JNull = Inl h \<Longrightarrow> post_request E req = Inl h"
  by (simp add: post_request_def)

lemma post_request_Inr:
  assumes "post_request E req = Inr (q, v, opn)"
  obtains v0 where "url_variables E req JNull = Inr v0"
    and "json_branch E req (url_query E req) v0 (url_operation_name E req) = Inr (q, v, opn) \<or>
         graphql_branch req (url_query E req) v0 (url_operation_name E req) = Inr (q, v, opn) \<or>
         (url_query E req = Some q \<and> v = v0 \<and> opn = url_operation_name E req)"
  using assms
  by (auto simp: post_request_def split: if_splits option.splits sum.splits)

subsection \<open>Where the query text cannot be empty\<close>

lemma str_param_nonempty: "truthy_param p \<Longrightarrow> str_param E p \<noteq> []"
  by (cases p) auto

lemma url_query_nonempty: "url_query E req = Some q \<Longrightarrow> q \<noteq> []"
  by (auto simp: url_query_def str_param_nonempty split: if_splits option.splits)

lemma get_query_nonempty: "get_request E req = Inr (q, v, opn) \<Longrightarrow> q \<noteq> []"
  by (auto simp: get_request_def url_query_nonempty split: option.splits sum.splits)

lemma post_query_nonempty:
  assumes "post_request E req = Inr (q, v, opn)"
    and "(\<exists>q0. url_query E req = Some q0) \<or> \<not> content_type_has req ''application/json''"
  shows "q \<noteq> []"
proof (cases "url_query E req")
  case None
  with assms(2) have "\<not> content_type_has req ''application/json''"
    by simp
  with assms(1) None show ?thesis
    by (auto simp: post_request_def graphql_branch_def split: sum.splits option.splits if_splits)
next
  case (Some q0)
  from assms(1) obtain v0 where
    "json_branch E req (url_query E req) v0 (url_operation_name E req) = Inr (q, v, opn) \<or>
     graphql_branch req (url_query E req) v0 (url_operation_name E req) = Inr (q, v, opn) \<or>
     (url_query E req = Some q \<and> v = v0 \<and> opn = url_operation_name E req)"
    by (rule post_request_Inr)
  then have "q = q0"
    unfolding Some
    by (auto elim!: json_branch_Inr dest: json_query_keeps graphql_branch_Inr)
  with Some show ?thesis
    by (simp add: url_query_nonempty)
qed

subsection \<open>Where the URL's fields win\<close>

text \<open>
  On a POST request that reaches the engine, the query and the operation name are the URL's
  whenever the URL parameter is present and not empty, and so are the variables whenever the
  URL value decodes to anything but \<^verbatim>\<open>None\<close>.
\<close>

lemma url_fields_take_precedence:
  assumes \<open>post_request E req = Inr (q, v, opn)\<close>
  shows \<open>(\<forall>p. map_of (params req) ''query'' = Some p \<and> truthy_param p \<longrightarrow>
            q = str_param E p) \<and>
         (\<forall>p w. map_of (params req) ''variables'' = Some p \<and> truthy_param p \<and>
            loads E (str_param E p) = Inr w \<and> w \<noteq> JNull \<longrightarrow> v = w) \<and>
         (\<forall>p. map_of (params req) ''operationName'' = Some p \<and> truthy_param p \<longrightarrow>
            opn = Some (str_param E p))\<close>
proof -
  from assms obtain v0 where v0: "url_variables E req JNull = Inr v0"
    and br: "json_branch E req (url_query E req) v0 (url_operation_name E req) = Inr (q, v, opn) \<or>
      graphql_branch req (url_query E req) v0 (url_operation_name E req) = Inr (q, v, opn) \<or>
      (url_query E req = Some q \<and> v = v0 \<and> opn = url_operation_name E req)"
    by (rule post_request_Inr)
  have query: "q = q0" if "url_query E req = Some q0" for q0
    using br that
    by (auto elim!: json_branch_Inr dest: json_query_keeps graphql_branch_Inr)
  have vars: "v = v0" if "v0 \<noteq> JNull"
    using br that
    by (auto elim!: json_branch_Inr dest: json_variables_keeps graphql_branch_Inr)
  have name: "opn = Some o0" if "url_operation_name E req = Some o0" for o0
    using br that
    by (auto elim!: json_branch_Inr dest: json_operation_name_keeps graphql_branch_Inr)
  show ?thesis
  proof (intro conjI allI impI)
    fix p
    assume "map_of (params req) ''query'' = Some p \<and> truthy_param p"
    then show "q = str_param E p"
      by (auto intro: query url_query_Some)
  next
    fix p w
    assume h: "map_of (params req) ''variables'' = Some p \<and> truthy_param p \<and>
      loads E (str_param E p) = Inr w \<and> w \<noteq> JNull"
    then have "url_variables E req JNull = Inr w"
      by (auto intro: url_variables_Some)
    with v0 h vars show "v = w"
      by simp
  next
    fix p
    assume "map_of (params req) ''operationName'' = Some p \<and> truthy_param p"
    then show "opn = Some (str_param E p)"
      by (auto intro: name url_operation_name_Some)
  qed
qed

lemma url_query_beats_body_query:
  \<open>post_request sample_env (post_body ''application/json''
       [(''query'', PStr ''{q1}''), (''variables'', PStr ''[1]''), (''operationName'', PStr ''A'')]
       ''{"query":"{q2}"}'') = Inr (''{q1}'', JArr [JInt 1], Some ''A'') \<and>
   str_param sample_env (PStr ''{q1}'') = ''{q1}'' \<and>
   loads sample_env (str_param sample_env (PStr ''[1]'')) = Inr (JArr [JInt 1]) \<and>
   JArr [JInt 1] \<noteq> JNull\<close>
proof -
  let ?req = \<open>post_body ''application/json''
       [(''query'', PStr ''{q1}''), (''variables'', PStr ''[1]''), (''operationName'', PStr ''A'')]
       ''{"query":"{q2}"}''\<close>
  have r: "post_request sample_env ?req = Inr (''{q1}'', JArr [JInt 1], Some ''A'')"
    by (simp add: post_request_def json_branch_def json_query_def json_variables_def
        json_operation_name_def url_query_def url_variables_def try_loads_def url_operation_name_def
        content_type_has_def post_body_def sample_env_def sample_loads_def py_str_def)
  from url_fields_take_precedence [OF r] r show ?thesis
    by (simp add: post_body_def sample_env_def sample_loads_def)
qed

subsection \<open>Exceptions of \<^verbatim>\<open>json.loads\<close> that are not caught\<close>

lemma get_variables_exception_escapes:
  assumes "map_of (params req) ''query'' = Some pq" and "truthy_param pq"
    and "map_of (params req) ''variables'' = Some p" and "truthy_param p"
    and "loads E (str_param E p) = Inl e" and "e \<noteq> JSONDecodeError"
  shows "on_get E req resp = Inl e"
  using assms
  by (simp add: on_get_def get_request_def url_query_Some url_variables_def try_loads_raises
      finish_Raised)

lemma post_body_exception_escapes:
  assumes "content_type_has req ''application/json''"
    and "url_variables E req JNull = Inr v0"
    and "content_length req = Some n" and "0 < n" and "stream req = Some raw"
    and "loads E raw = Inl e" and "e \<noteq> JSONDecodeError"
  shows "on_post E req resp = Inl e"
  using assms
  by (simp add: on_post_def post_request_json json_branch_def try_loads_raises finish_Raised)

section \<open>The claims\<close>

subsection \<open>C1\<close>

text \<open>
  C1 on a URL whose \<^verbatim>\<open>variables\<close> parameter is \<^verbatim>\<open>null\<close>. The parameter is present and not
  empty, and it decodes to \<^verbatim>\<open>None\<close>, which is also the handler's mark for variables the URL
  did not give: the variables of the JSON body are decoded and reach the engine in its
  place.
\<close>

theorem url_null_variables_replaced_by_body:
  \<open>map_of (params (post_body ''application/json''
       [(''query'', PStr ''{q1}''), (''variables'', PStr ''null'')]
       ''{"variables":"[1]"}'')) ''variables'' = Some (PStr ''null'') \<and>
   loads sample_env ''null'' = Inr JNull \<and>
   post_request sample_env (post_body ''application/json''
       [(''query'', PStr ''{q1}''), (''variables'', PStr ''null'')]
       ''{"variables":"[1]"}'') = Inr (''{q1}'', JArr [JInt 1], None)\<close>
  by (simp add: post_request_def json_branch_def json_query_def json_variables_def
      json_operation_name_def url_query_def url_variables_def try_loads_def url_operation_name_def
      content_type_has_def post_body_def sample_env_def sample_loads_def py_str_def)

subsection \<open>C2\<close>

text \<open>
  C2 on an engine result whose \<open>data\<close> is present and empty. The handlers test the truth of
  \<^verbatim>\<open>result.data\<close>, and an empty object is false: without errors the bare \<^verbatim>\<open>raise\<close> is
  reached, with errors the answer is status 400.
\<close>

theorem empty_data_is_not_returned:
  \<open>execute sample_env ''{hello @skip(if: true)}'' (JStr []) None =
     \<lparr>data = JObj [], errors = None\<rparr> \<and>
   graphql_route sample_env (get_url [(''query'', PStr ''{hello @skip(if: true)}'')]) =
     Inl RuntimeError \<and>
   respond \<lparr>data = JObj [], errors = Some [GraphQLError ''Cannot query field.'' [(1, 2)]]\<rparr>
     new_response =
     Inr \<lparr>status = HTTP_400, body = Some ''{"errors":[{"message":"Cannot query field."}]}'',
          headers = Map.empty\<rparr>\<close>
  by (simp add: graphql_route_def falcon_after_def on_get_def finish_def get_request_def
      respond_def truthy_errors_def err_msgs_def str_error_def errors_body_sample
      url_query_def url_variables_def try_loads_def url_operation_name_def
      get_url_def sample_env_def sample_execute_def new_response_def del: dumps.simps)

subsection \<open>C3\<close>

text \<open>
  C3 does not hold for every request as it is stated. \<^verbatim>\<open>on_get\<close> looks for the query before
  it decodes the variables, so a GET request with invalid variables and no query is answered
  \<^verbatim>\<open>Must provide query string.\<close>
\<close>

theorem get_invalid_variables_counterexample:
  \<open>map_of (params (get_url [(''variables'', PStr ''{bad'')])) ''variables'' = Some (PStr ''{bad'') \<and>
   loads sample_env ''{bad'' = Inl JSONDecodeError \<and>
   on_get sample_env (get_url [(''variables'', PStr ''{bad'')]) new_response =
     Inr \<lparr>status = HTTP_400,
          body = Some ''{"errors":[{"message":"Must provide query string."}]}'',
          headers = Map.empty\<rparr>\<close>
  by (simp add: on_get_def get_request_def finish_def rejected_query get_url_def url_query_def
      sample_env_def sample_loads_def new_response_def)

text \<open>
  C3, as the code has it. A URL \<^verbatim>\<open>variables\<close> parameter that is present, not empty and
  rejected by \<^verbatim>\<open>json.loads\<close> with \<^verbatim>\<open>JSONDecodeError\<close> is answered with status 400 and
  \<^verbatim>\<open>Variables are invalid JSON.\<close>: on a GET request when the URL also has a query, and on
  every POST request, before the content type and the body are looked at, so that no body
  can replace the value. On a JSON POST request whose URL gives no variables, a truthy
  \<^verbatim>\<open>variables\<close> value of the body whose \<^verbatim>\<open>str\<close> is rejected with \<^verbatim>\<open>JSONDecodeError\<close> gets
  the same answer once a query is there, from the URL or from the body.
\<close>

theorem invalid_variables_rejected:
  \<open>(map_of (params req) ''variables'' = Some p \<and> truthy_param p \<and>
     loads E (str_param E p) = Inl JSONDecodeError \<longrightarrow>
       (map_of (params req) ''query'' = Some pq \<and> truthy_param pq \<longrightarrow>
          on_get E req resp =
            Inr (resp\<lparr>status := HTTP_400,
                      body := Some ''{"errors":[{"message":"Variables are invalid JSON."}]}''\<rparr>)) \<and>
       post_request E req = Inl (Rejected ''Variables are invalid JSON.'') \<and>
       on_post E (req\<lparr>content_type := c, content_length := l, stream := b\<rparr>) resp =
         Inr (resp\<lparr>status := HTTP_400,
                   body := Some ''{"errors":[{"message":"Variables are invalid JSON."}]}''\<rparr>)) \<and>
    (content_type_has req ''application/json'' \<and> content_length req = Some n \<and> 0 < n \<and>
     stream req = Some raw \<and> loads E raw = Inr (JObj kvs) \<and>
     url_variables E req JNull = Inr JNull \<and>
     ((\<exists>q0. url_query E req = Some q0) \<or> (\<exists>vq. map_of kvs ''query'' = Some vq)) \<and>
     map_of kvs ''variables'' = Some v \<and> truthy v \<and> loads E (py_str E v) = Inl JSONDecodeError \<longrightarrow>
       on_post E req resp =
         Inr (resp\<lparr>status := HTTP_400,
                   body := Some ''{"errors":[{"message":"Variables are invalid JSON."}]}''\<rparr>))\<close>
proof -
  have url: \<open>(map_of (params req) ''query'' = Some pq \<and> truthy_param pq \<longrightarrow>
        on_get E req resp =
          Inr (resp\<lparr>status := HTTP_400,
                    body := Some ''{"errors":[{"message":"Variables are invalid JSON."}]}''\<rparr>)) \<and>
      post_request E req = Inl (Rejected ''Variables are invalid JSON.'') \<and>
      on_post E (req\<lparr>content_type := c, content_length := l, stream := b\<rparr>) resp =
        Inr (resp\<lparr>status := HTTP_400,
                  body := Some ''{"errors":[{"message":"Variables are invalid JSON."}]}''\<rparr>)\<close>
    if h: "map_of (params req) ''variables'' = Some p \<and> truthy_param p \<and>
      loads E (str_param E p) = Inl JSONDecodeError"
  proof -
    from h have bad: "url_variables E req dflt = Inl (Rejected ''Variables are invalid JSON.'')"
      for dflt
      by (simp add: url_variables_Rejected)
    have get: "get_request E req = Inl (Rejected ''Variables are invalid JSON.'')"
      if "map_of (params req) ''query'' = Some pq \<and> truthy_param pq"
      using that by (simp add: get_request_def url_query_Some bad)
    have post: "post_request E req = Inl (Rejected ''Variables are invalid JSON.'')"
      by (simp add: post_request_url_rejected bad)
    have post': "post_request E (req\<lparr>content_type := c, content_length := l, stream := b\<rparr>) =
        Inl (Rejected ''Variables are invalid JSON.'')"
      by (simp add: post_request_url_rejected url_ignores_body bad)
    show ?thesis
      using get post
      by (simp add: on_get_def on_post_def post' finish_Rejected rejected_variables)
  qed
  have body: \<open>on_post E req resp =
      Inr (resp\<lparr>status := HTTP_400,
                body := Some ''{"errors":[{"message":"Variables are invalid JSON."}]}''\<rparr>)\<close>
    if h: "content_type_has req ''application/json'' \<and> content_length req = Some n \<and> 0 < n \<and>
      stream req = Some raw \<and> loads E raw = Inr (JObj kvs) \<and>
      url_variables E req JNull = Inr JNull \<and>
      ((\<exists>q0. url_query E req = Some q0) \<or> (\<exists>vq. map_of kvs ''query'' = Some vq)) \<and>
      map_of kvs ''variables'' = Some v \<and> truthy v \<and> loads E (py_str E v) = Inl JSONDecodeError"
  proof -
    from h have branch: "post_request E req =
        json_branch E req (url_query E req) JNull (url_operation_name E req)"
      by (simp add: post_request_json)
    obtain q where q: "json_query E (url_query E req) (JObj kvs) = Inr q"
    proof (cases "url_query E req")
      case None
      with h obtain vq where "map_of kvs ''query'' = Some vq"
        by auto
      then have "json_query E (url_query E req) (JObj kvs) = Inr (py_str E vq)"
        unfolding None by (rule json_query_from_body)
      then show ?thesis
        by (rule that)
    next
      case (Some q0)
      then have "json_query E (url_query E req) (JObj kvs) = Inr q0"
        by (simp add: json_query_def)
      then show ?thesis
        by (rule that)
    qed
    from h have vars: "json_variables E JNull (JObj kvs) =
        Inl (Rejected ''Variables are invalid JSON.'')"
      by (simp add: json_variables_invalid)
    from h have "post_request E req = Inl (Rejected ''Variables are invalid JSON.'')"
      unfolding branch by (simp add: json_branch_body q vars)
    then show ?thesis
      by (simp add: on_post_def finish_Rejected rejected_variables)
  qed
  from url body show ?thesis
    by blast
qed

theorem invalid_variables_rejected_witness:
  \<open>on_get sample_env
     (get_url [(''query'', PStr ''{hello}''), (''variables'', PStr ''{bad'')]) new_response =
     Inr \<lparr>status = HTTP_400, body = Some ''{"errors":[{"message":"Variables are invalid JSON."}]}'',
          headers = Map.empty\<rparr> \<and>
   on_post sample_env
     (post_body ''application/json'' [(''variables'', PStr ''{bad'')] ''{"variables":"[1]"}'')
     new_response =
     Inr \<lparr>status = HTTP_400, body = Some ''{"errors":[{"message":"Variables are invalid JSON."}]}'',
          headers = Map.empty\<rparr> \<and>
   on_post sample_env
     (post_body ''application/json'' [] ''{"query":"{hello}","variables":"{bad"}'') new_response =
     Inr \<lparr>status = HTTP_400, body = Some ''{"errors":[{"message":"Variables are invalid JSON."}]}'',
          headers = Map.empty\<rparr>\<close>
proof -
  let ?get = "get_url [(''query'', PStr ''{hello}''), (''variables'', PStr ''{bad'')]"
  let ?post = \<open>post_body ''application/json'' [(''variables'', PStr ''{bad'')]
    ''{"variables":"[1]"}''\<close>
  let ?body = \<open>post_body ''application/json'' [] ''{"query":"{hello}","variables":"{bad"}''\<close>
  let ?kvs = "[(''query'', JStr ''{hello}''), (''variables'', JStr ''{bad'')]"
  have bad: "loads sample_env ''{bad'' = Inl JSONDecodeError"
    by (simp add: sample_env_def sample_loads_def)
  have g: "map_of (params ?get) ''variables'' = Some (PStr ''{bad'') \<and>
      truthy_param (PStr ''{bad'') \<and> loads sample_env (str_param sample_env (PStr ''{bad'')) = Inl JSONDecodeError"
    "map_of (params ?get) ''query'' = Some (PStr ''{hello}'') \<and> truthy_param (PStr ''{hello}'')"
    using bad by (simp_all add: get_url_def)
  have p: "map_of (params ?post) ''variables'' = Some (PStr ''{bad'') \<and>
      truthy_param (PStr ''{bad'') \<and> loads sample_env (str_param sample_env (PStr ''{bad'')) = Inl JSONDecodeError"
    using bad by (simp add: post_body_def)
  have same: "?post\<lparr>content_type := content_type ?post, content_length := content_length ?post,
      stream := stream ?post\<rparr> = ?post"
    by simp
  have b: \<open>content_type_has ?body ''application/json'' \<and> content_length ?body = Some (length ''{"query":"{hello}","variables":"{bad"}'') \<and>
      0 < length ''{"query":"{hello}","variables":"{bad"}'' \<and> stream ?body = Some ''{"query":"{hello}","variables":"{bad"}'' \<and>
      loads sample_env ''{"query":"{hello}","variables":"{bad"}'' = Inr (JObj ?kvs) \<and>
      url_variables sample_env ?body JNull = Inr JNull \<and>
      ((\<exists>q0. url_query sample_env ?body = Some q0) \<or>
       (\<exists>vq. map_of ?kvs ''query'' = Some vq)) \<and>
      map_of ?kvs ''variables'' = Some (JStr ''{bad'') \<and> truthy (JStr ''{bad'') \<and>
      loads sample_env (py_str sample_env (JStr ''{bad'')) = Inl JSONDecodeError\<close>
    using bad
    by (simp add: content_type_has_def post_body_def url_variables_def try_loads_def py_str_def)
      (simp add: sample_env_def sample_loads_def)
  note on_url_get = invalid_variables_rejected
    [where req = ?get and p = "PStr ''{bad''" and E = sample_env and pq = "PStr ''{hello}''"
      and resp = new_response,
      THEN conjunct1, THEN mp, OF g(1), THEN conjunct1, THEN mp, OF g(2)]
  note on_url_post = invalid_variables_rejected
    [where req = ?post and p = "PStr ''{bad''" and E = sample_env and resp = new_response
      and c = "content_type ?post" and l = "content_length ?post" and b = "stream ?post",
      THEN conjunct1, THEN mp, OF p, THEN conjunct2, THEN conjunct2, unfolded same]
  note on_body = invalid_variables_rejected
    [where req = ?body and E = sample_env and resp = new_response and kvs = ?kvs
      and v = "JStr ''{bad''",
      THEN conjunct2, THEN mp, OF b]
  from on_url_get on_url_post on_body show ?thesis
    by (simp add: new_response_def)
qed

subsection \<open>C4\<close>

text \<open>
  C4. A GET request whose URL has no \<^verbatim>\<open>query\<close> parameter, or an empty one, is answered with
  status 400 and the body \<^verbatim>\<open>{"errors":[{"message":"Must provide query string."}]}\<close>. The
  handler stops before the engine: the response is the same for every engine and decoder
  \<open>E'\<close> and for every content type, content length and body the request could carry.
\<close>

theorem get_without_query:
  assumes \<open>map_of (params req) ''query'' = None \<or>
           (\<exists>p. map_of (params req) ''query'' = Some p \<and> \<not> truthy_param p)\<close>
  shows \<open>get_request E req = Inl (Rejected ''Must provide query string.'') \<and>
         on_get E req resp =
           Inr (resp\<lparr>status := HTTP_400,
                     body := Some ''{"errors":[{"message":"Must provide query string."}]}''\<rparr>) \<and>
         on_get E' (req\<lparr>content_type := c, content_length := n, stream := s\<rparr>) resp =
           on_get E req resp \<and>
         (meth req = GET \<longrightarrow>
           graphql_route E req =
             Inr \<lparr>status = HTTP_400,
                  body = Some ''{"errors":[{"message":"Must provide query string."}]}'',
                  headers = [''Allow'' \<mapsto> ''GET, POST, OPTIONS'']\<rparr>)\<close>
proof -
  from assms have none: "url_query E0 req = None" for E0
    by (auto simp: url_query_None)
  have r: "get_request E0 req0 = Inl (Rejected ''Must provide query string.'')"
    if "url_query E0 req0 = None" for E0 req0
    using that by (simp add: get_request_def)
  have g: \<open>on_get E0 req0 resp0 =
      Inr (resp0\<lparr>status := HTTP_400,
                 body := Some ''{"errors":[{"message":"Must provide query string."}]}''\<rparr>)\<close>
    if "url_query E0 req0 = None" for E0 req0 resp0
    unfolding on_get_def r [OF that] finish_Rejected rejected_query ..
  have "url_query E' (req\<lparr>content_type := c, content_length := n, stream := s\<rparr>) = None"
    by (simp add: url_ignores_body none)
  then have same: "on_get E' (req\<lparr>content_type := c, content_length := n, stream := s\<rparr>) resp =
      on_get E req resp"
    by (simp add: g none)
  have route: \<open>graphql_route E req =
      Inr \<lparr>status = HTTP_400,
           body = Some ''{"errors":[{"message":"Must provide query string."}]}'',
           headers = [''Allow'' \<mapsto> ''GET, POST, OPTIONS'']\<rparr>\<close> if "meth req = GET"
    unfolding route_GET [OF that]
    by (simp add: after_Inr [of "on_get E", OF g [OF none]] new_response_def)
  from r [OF none] g [OF none] same route show ?thesis
    by blast
qed

theorem get_without_query_witness:
  \<open>map_of (params (get_url [(''operationName'', PStr ''Roll'')])) ''query'' = None \<and>
   graphql_route sample_env (get_url [(''operationName'', PStr ''Roll'')]) =
     Inr \<lparr>status = HTTP_400,
          body = Some ''{"errors":[{"message":"Must provide query string."}]}'',
          headers = [''Allow'' \<mapsto> ''GET, POST, OPTIONS'']\<rparr>\<close>
  using get_without_query [of "get_url [(''operationName'', PStr ''Roll'')]" sample_env]
  by (simp add: get_url_def)

subsection \<open>C5\<close>

text \<open>
  C5 does not hold for every request as it is stated. \<^verbatim>\<open>on_post\<close> decodes the URL's
  variables before it looks at the content type and the body, so with an invalid value there
  a JSON POST request with an empty body is answered \<^verbatim>\<open>Variables are invalid JSON.\<close>
\<close>

theorem empty_json_body_counterexample:
  \<open>content_type_has (post_body ''application/json'' [(''variables'', PStr ''{bad'')] [])
     ''application/json'' \<and>
   content_length (post_body ''application/json'' [(''variables'', PStr ''{bad'')] []) = Some 0 \<and>
   on_post sample_env (post_body ''application/json'' [(''variables'', PStr ''{bad'')] [])
     new_response =
     Inr \<lparr>status = HTTP_400, body = Some ''{"errors":[{"message":"Variables are invalid JSON."}]}'',
          headers = Map.empty\<rparr>\<close>
  by (simp add: on_post_def post_request_def finish_def rejected_variables post_body_def
      content_type_has_def url_variables_def try_loads_def sample_env_def sample_loads_def new_response_def)

text \<open>
  C5, as the code has it. A POST request with a JSON content type whose URL \<^verbatim>\<open>variables\<close>
  parameter is absent, empty or JSON is answered with status 400 and
  \<^verbatim>\<open>POST body sent invalid JSON.\<close>, and the engine does not run, when the content length is
  missing or zero, or when the body is a text that \<^verbatim>\<open>json.loads\<close> rejects with
  \<^verbatim>\<open>JSONDecodeError\<close>.
\<close>

theorem json_post_invalid_body:
  assumes \<open>content_type_has req ''application/json''\<close>
    and \<open>url_variables E req JNull = Inr v0\<close>
    and \<open>content_length req = None \<or> content_length req = Some 0 \<or>
         (\<exists>raw. stream req = Some raw \<and> loads E raw = Inl JSONDecodeError)\<close>
  shows \<open>post_request E req = Inl (Rejected ''POST body sent invalid JSON.'') \<and>
         on_post E req resp =
           Inr (resp\<lparr>status := HTTP_400,
                     body := Some ''{"errors":[{"message":"POST body sent invalid JSON."}]}''\<rparr>)\<close>
proof -
  from assms(3)
  have "json_branch E req (url_query E req) v0 (url_operation_name E req) =
      Inl (Rejected ''POST body sent invalid JSON.'')"
    by (auto simp: json_branch_def try_loads_invalid)
  then have r: "post_request E req = Inl (Rejected ''POST body sent invalid JSON.'')"
    by (simp add: post_request_json [OF assms(1,2)])
  show ?thesis
    unfolding on_post_def r finish_Rejected rejected_post by simp
qed

theorem json_post_invalid_body_witness:
  \<open>on_post sample_env (post_body ''application/json'' [(''query'', PStr ''{hello}'')] [])
     new_response =
     Inr \<lparr>status = HTTP_400,
          body = Some ''{"errors":[{"message":"POST body sent invalid JSON."}]}'',
          headers = Map.empty\<rparr> \<and>
   on_post sample_env (post_body ''application/json'' [(''query'', PStr ''{hello}'')] ''{bad'')
     new_response =
     Inr \<lparr>status = HTTP_400,
          body = Some ''{"errors":[{"message":"POST body sent invalid JSON."}]}'',
          headers = Map.empty\<rparr>\<close>
proof -
  let ?empty = "post_body ''application/json'' [(''query'', PStr ''{hello}'')] []"
  let ?bad = "post_body ''application/json'' [(''query'', PStr ''{hello}'')] ''{bad''"
  have ct: "content_type_has (post_body ''application/json'' ps b) ''application/json''" for ps b
    by (simp add: content_type_has_def post_body_def)
  have url: "url_variables sample_env (post_body ct [(''query'', PStr ''{hello}'')] b) JNull =
      Inr JNull" for ct b
    by (simp add: url_variables_def try_loads_def post_body_def)
  have empty: "content_length ?empty = None \<or> content_length ?empty = Some 0 \<or>
      (\<exists>raw. stream ?empty = Some raw \<and> loads sample_env raw = Inl JSONDecodeError)"
    by (simp add: post_body_def)
  have bad: "content_length ?bad = None \<or> content_length ?bad = Some 0 \<or>
      (\<exists>raw. stream ?bad = Some raw \<and> loads sample_env raw = Inl JSONDecodeError)"
    by (simp add: post_body_def sample_env_def sample_loads_def)
  from json_post_invalid_body [OF ct url empty, of new_response]
    json_post_invalid_body [OF ct url bad, of new_response]
  show ?thesis
    by (simp add: new_response_def)
qed

subsection \<open>C6\<close>



subsection \<open>C7\<close>

text \<open>
  C7 does not hold as it is stated. For a result with neither data nor errors the handler
  builds no response of its own: the exception of its last branch leaves the responder and
  the route. Nor is this the only request that ends in an exception: a JSON body that is a
  number makes \<^verbatim>\<open>'query' in post_data\<close> raise \<^verbatim>\<open>TypeError\<close>.
\<close>

theorem silent_engine_counterexample:
  \<open>execute silent_env ''{hello}'' (JStr []) None = \<lparr>data = JNull, errors = None\<rparr> \<and>
   get_request silent_env (get_url [(''query'', PStr ''{hello}'')]) =
     Inr (''{hello}'', JStr [], None) \<and>
   graphql_route silent_env (get_url [(''query'', PStr ''{hello}'')]) = Inl RuntimeError \<and>
   loads sample_env ''5'' = Inr (JInt 5) \<and>
   graphql_route sample_env (post_body ''application/json'' [] ''5'') = Inl TypeError\<close>
proof -
  have silent: "graphql_route silent_env (get_url [(''query'', PStr ''{hello}'')]) =
      Inl RuntimeError"
    "get_request silent_env (get_url [(''query'', PStr ''{hello}'')]) =
      Inr (''{hello}'', JStr [], None)"
    by (simp_all add: graphql_route_def falcon_after_def on_get_def finish_def get_request_def
        respond_def truthy_errors_def url_query_def url_variables_def url_operation_name_def
        get_url_def silent_env_def)
  have number: "graphql_route sample_env (post_body ''application/json'' [] ''5'') =
      Inl TypeError"
    by (simp add: graphql_route_def falcon_after_def on_post_def finish_def post_request_def
        json_branch_def json_query_def try_loads_def url_query_def url_variables_def
        content_type_has_def post_body_def sample_env_def sample_loads_def)
  from silent number show ?thesis
    by (simp add: silent_env_def sample_env_def sample_loads_def)
qed

text \<open>
  C7, as the code has it. When the engine's result has neither data (\<^verbatim>\<open>result.data\<close> is
  \<^verbatim>\<open>None\<close>) nor errors (\<^verbatim>\<open>result.errors\<close> is \<^verbatim>\<open>None\<close> or empty), the handler does not ignore
  it and does not answer 200 or 400: its last branch is a bare \<^verbatim>\<open>raise\<close>, so a
  \<^verbatim>\<open>RuntimeError\<close> leaves the responder, and the route, unhandled, with no status, body or
  header set by this code.
\<close>

theorem neither_data_nor_errors_raises:
  assumes \<open>data r = JNull\<close> and \<open>errors r = None \<or> errors r = Some []\<close>
  shows \<open>respond r resp = Inl RuntimeError \<and>
         (get_request E req = Inr (q, v, opn) \<and> execute E q v opn = r \<longrightarrow>
            on_get E req resp = Inl RuntimeError \<and>
            (meth req = GET \<longrightarrow> graphql_route E req = Inl RuntimeError)) \<and>
         (post_request E req = Inr (q, v, opn) \<and> execute E q v opn = r \<longrightarrow>
            on_post E req resp = Inl RuntimeError \<and>
            (meth req = POST \<longrightarrow> graphql_route E req = Inl RuntimeError))\<close>
proof -
  from assms have none: "\<not> truthy (data r)" "\<not> truthy_errors (errors r)"
    by (auto simp: truthy_errors_def)
  have raises: "respond r resp0 = Inl RuntimeError" for resp0
    using none by (rule respond_raises)
  have get: "on_get E req resp0 = Inl RuntimeError"
    if "get_request E req = Inr (q, v, opn) \<and> execute E q v opn = r" for resp0
    using that by (simp add: on_get_def finish_Inr raises)
  have post: "on_post E req resp0 = Inl RuntimeError"
    if "post_request E req = Inr (q, v, opn) \<and> execute E q v opn = r" for resp0
    using that by (simp add: on_post_def finish_Inr raises)
  have get_route: "graphql_route E req = Inl RuntimeError"
    if "get_request E req = Inr (q, v, opn) \<and> execute E q v opn = r" and "meth req = GET"
    unfolding route_GET [OF that(2)] using get [OF that(1)] by (rule after_Inl)
  have post_route: "graphql_route E req = Inl RuntimeError"
    if "post_request E req = Inr (q, v, opn) \<and> execute E q v opn = r" and "meth req = POST"
    unfolding route_POST [OF that(2)] using post [OF that(1)] by (rule after_Inl)
  from raises get post get_route post_route show ?thesis
    by blast
qed

theorem neither_data_nor_errors_raises_witness:
  \<open>data \<lparr>data = JNull, errors = Some []\<rparr> = JNull \<and>
   errors \<lparr>data = JNull, errors = Some []\<rparr> = Some [] \<and>
   respond \<lparr>data = JNull, errors = Some []\<rparr> new_response = Inl RuntimeError \<and>
   execute silent_env ''{hello}'' JNull None = \<lparr>data = JNull, errors = None\<rparr> \<and>
   graphql_route silent_env (post_body ''application/graphql'' [] ''{hello}'') =
     Inl RuntimeError\<close>
proof -
  let ?req = "post_body ''application/graphql'' [] ''{hello}''"
  have none: "data \<lparr>data = JNull, errors = Some []\<rparr> = JNull"
    "errors \<lparr>data = JNull, errors = Some []\<rparr> = None \<or>
     errors \<lparr>data = JNull, errors = Some []\<rparr> = Some []"
    by simp_all
  have silent: "data \<lparr>data = JNull, errors = None\<rparr> = JNull"
    "errors \<lparr>data = JNull, errors = None\<rparr> = None \<or>
     errors \<lparr>data = JNull, errors = None\<rparr> = Some []"
    by simp_all
  have run: "post_request silent_env ?req = Inr (''{hello}'', JNull, None) \<and>
      execute silent_env ''{hello}'' JNull None = \<lparr>data = JNull, errors = None\<rparr>"
    by (simp add: post_request_def graphql_branch_def content_type_has_def url_query_def
        url_variables_def url_operation_name_def post_body_def silent_env_def)
  have m: "meth ?req = POST"
    by (simp add: post_body_def)
  note first = neither_data_nor_errors_raises
    [where r = "\<lparr>data = JNull, errors = Some []\<rparr>" and resp = new_response,
      OF none, THEN conjunct1]
  note route = neither_data_nor_errors_raises
    [where r = "\<lparr>data = JNull, errors = None\<rparr>" and E = silent_env and req = ?req
      and q = "''{hello}''" and v = JNull and opn = None,
      OF silent, THEN conjunct2, THEN conjunct2, THEN mp, OF run,
      THEN conjunct2, THEN mp, OF m]
  from first route run show ?thesis
    by simp
qed

subsection \<open>C8\<close>

text \<open>
  C8 on a JSON body whose \<^verbatim>\<open>query\<close> is the empty string. The JSON branch tests that the key
  is in the body, not that its value is true, so the engine runs on the empty query.
\<close>

theorem empty_body_query_reaches_engine:
  \<open>post_request sample_env (post_body ''application/json'' [] ''{"query":""}'') =
     Inr ([], JStr [], None) \<and>
   on_post sample_env (post_body ''application/json'' [] ''{"query":""}'') new_response =
     respond (execute sample_env [] (JStr []) None) new_response\<close>
  by (simp add: on_post_def finish_def post_request_def json_branch_def json_query_def
      json_variables_def json_operation_name_def url_query_def url_variables_def try_loads_def
      url_operation_name_def content_type_has_def post_body_def sample_env_def sample_loads_def
      py_str_def)

subsection \<open>C9\<close>

text \<open>
  C9. On \<^verbatim>\<open>/graphql\<close> an OPTIONS request is answered with status 204 and no body; a PUT, PATCH
  or DELETE request with status 405 and the body
  \<^verbatim>\<open>{"errors":[{"message":"GraphQL only supports GET and POST requests."}]}\<close>, whatever its
  parameters, content type and body are; and every response a responder returns, for every
  method, carries the header \<^verbatim>\<open>Allow: GET, POST, OPTIONS\<close>. (When an exception leaves the
  responder there is no response of this code to carry it.)
\<close>

theorem method_dispatch:
  \<open>(meth req = OPTIONS \<longrightarrow>
      graphql_route E req =
        Inr \<lparr>status = HTTP_204, body = None,
             headers = [''Allow'' \<mapsto> ''GET, POST, OPTIONS'']\<rparr>) \<and>
    (meth req = PUT \<or> meth req = PATCH \<or> meth req = DELETE \<longrightarrow>
      graphql_route E req =
        Inr \<lparr>status = HTTP_405,
             body = Some ''{"errors":[{"message":"GraphQL only supports GET and POST requests."}]}'',
             headers = [''Allow'' \<mapsto> ''GET, POST, OPTIONS'']\<rparr>) \<and>
    (\<forall>resp. graphql_route E req = Inr resp \<longrightarrow>
      headers resp ''Allow'' = Some ''GET, POST, OPTIONS'')\<close>
proof (intro conjI impI allI)
  assume "meth req = OPTIONS"
  then show "graphql_route E req =
      Inr \<lparr>status = HTTP_204, body = None, headers = [''Allow'' \<mapsto> ''GET, POST, OPTIONS'']\<rparr>"
    by (simp add: graphql_route_def falcon_after_def on_options_def
        set_graphql_allow_header_def set_header_def new_response_def)
next
  assume "meth req = PUT \<or> meth req = PATCH \<or> meth req = DELETE"
  then show \<open>graphql_route E req =
      Inr \<lparr>status = HTTP_405,
           body = Some ''{"errors":[{"message":"GraphQL only supports GET and POST requests."}]}'',
           headers = [''Allow'' \<mapsto> ''GET, POST, OPTIONS'']\<rparr>\<close>
    unfolding graphql_route_def falcon_after_def on_put_def on_patch_def on_delete_def
      error_response_def errors_body_method
    by (auto simp: set_graphql_allow_header_def set_header_def new_response_def)
next
  fix resp
  assume "graphql_route E req = Inr resp"
  then show "headers resp ''Allow'' = Some ''GET, POST, OPTIONS''"
    unfolding graphql_route_def by (rule after_allow)
qed

theorem method_dispatch_witness:
  \<open>graphql_route sample_env ((get_url [])\<lparr>meth := OPTIONS\<rparr>) =
     Inr \<lparr>status = HTTP_204, body = None,
          headers = [''Allow'' \<mapsto> ''GET, POST, OPTIONS'']\<rparr> \<and>
   graphql_route sample_env
       ((post_body ''application/json'' [] ''{"query":"{hello}"}'')\<lparr>meth := DELETE\<rparr>) =
     Inr \<lparr>status = HTTP_405,
          body = Some ''{"errors":[{"message":"GraphQL only supports GET and POST requests."}]}'',
          headers = [''Allow'' \<mapsto> ''GET, POST, OPTIONS'']\<rparr> \<and>
   graphql_route sample_env ((get_url [])\<lparr>meth := HEAD\<rparr>) =
     Inr \<lparr>status = HTTP_200, body = None,
          headers = [''Allow'' \<mapsto> ''GET, POST, OPTIONS'']\<rparr>\<close>
proof -
  have head: "graphql_route sample_env ((get_url [])\<lparr>meth := HEAD\<rparr>) =
      Inr \<lparr>status = HTTP_200, body = None, headers = [''Allow'' \<mapsto> ''GET, POST, OPTIONS'']\<rparr>"
    by (simp add: graphql_route_def falcon_after_def on_head_def get_url_def
        set_graphql_allow_header_def set_header_def new_response_def)
  from method_dispatch [of "(get_url [])\<lparr>meth := OPTIONS\<rparr>" sample_env]
    method_dispatch
      [of "(post_body ''application/json'' [] ''{\"query\":\"{hello}\"}'')\<lparr>meth := DELETE\<rparr>"
        sample_env]
    method_dispatch [of "(get_url [])\<lparr>meth := HEAD\<rparr>" sample_env] head
  show ?thesis
    by (simp add: get_url_def post_body_def)
qed

subsection \<open>C10\<close>

text \<open>
  C10. On the \<^verbatim>\<open>application/json\<close> branch, when the URL gives no query and the decoded body
  is an object with a \<^verbatim>\<open>query\<close> key, the query that reaches the engine is \<^verbatim>\<open>str\<close> of the
  key's value, whatever JSON value that is (a truthy one in particular: the source tests
  that the key is there, not its value). The request is not rejected for it: the only early
  exits left are those of decoding the variables (the 400 answer for invalid variables, or
  an exception of \<^verbatim>\<open>json.loads\<close> that the handler does not catch), and without variables in
  the URL and in the body the engine runs. An \<^verbatim>\<open>operationName\<close> key with a truthy value is used the same way,
  as its \<^verbatim>\<open>str\<close>, when the URL gives no operation name.
\<close>

theorem json_body_query_is_stringified:
  assumes \<open>content_type_has req ''application/json''\<close>
    and \<open>content_length req = Some n\<close> and \<open>0 < n\<close>
    and \<open>stream req = Some raw\<close> and \<open>loads E raw = Inr (JObj kvs)\<close>
    and \<open>url_query E req = None\<close>
    and \<open>map_of kvs ''query'' = Some v\<close>
  shows \<open>((\<exists>vars opn. post_request E req = Inr (py_str E v, vars, opn)) \<or>
          post_request E req = Inl (Rejected ''Variables are invalid JSON.'') \<or>
          (\<exists>e s. loads E s = Inl e \<and> e \<noteq> JSONDecodeError \<and>
             post_request E req = Inl (Raised e))) \<and>
         (map_of (params req) ''variables'' = None \<and> map_of kvs ''variables'' = None \<longrightarrow>
            (\<exists>opn. post_request E req = Inr (py_str E v, JStr [], opn) \<and>
                   on_post E req resp = respond (execute E (py_str E v) (JStr []) opn) resp)) \<and>
         (\<forall>w q vars opn.
            url_operation_name E req = None \<and> map_of kvs ''operationName'' = Some w \<and>
            truthy w \<and> post_request E req = Inr (q, vars, opn) \<longrightarrow>
            opn = Some (py_str E w))\<close>
proof -
  note body = json_branch_body [OF assms(2-5)]
  have jq: "json_query E (url_query E req) (JObj kvs) = Inr (py_str E v)"
    unfolding assms(6) using assms(7) by (rule json_query_from_body)
  show ?thesis
  proof (cases "url_variables E req JNull")
    case (Inl h)
    then have h: "h = Rejected ''Variables are invalid JSON.'' \<or>
        (\<exists>e s. loads E s = Inl e \<and> e \<noteq> JSONDecodeError \<and> h = Raised e)"
      by (rule url_variables_Inl)
    have "map_of (params req) ''variables'' \<noteq> None"
      using Inl by (auto simp: url_variables_def split: option.splits)
    moreover have "post_request E req = Inl h"
      using Inl by (rule post_request_url_rejected)
    ultimately show ?thesis
      using h by auto
  next
    case (Inr v0)
    have pr: "post_request E req =
        (case json_variables E v0 (JObj kvs) of
           Inl h \<Rightarrow> Inl h
         | Inr vars \<Rightarrow>
             Inr (py_str E v, vars,
               (case url_operation_name E req of
                  Some x \<Rightarrow> Some x
                | None \<Rightarrow>
                    (case map_of kvs ''operationName'' of
                       None \<Rightarrow> None
                     | Some w \<Rightarrow> if truthy w then Some (py_str E w) else None))))"
      unfolding post_request_json [OF assms(1) Inr] body jq json_operation_name_object
      by (simp split: sum.splits)
    have no_vars: "v0 = JNull" if "map_of (params req) ''variables'' = None"
      using Inr that by (simp add: url_variables_def)
    show ?thesis
    proof (cases "json_variables E v0 (JObj kvs)")
      case (Inl h)
      then have "h = Rejected ''Variables are invalid JSON.'' \<or>
          (\<exists>e s. loads E s = Inl e \<and> e \<noteq> JSONDecodeError \<and> h = Raised e)"
        by (rule json_variables_object)
      moreover have "\<not> (map_of (params req) ''variables'' = None \<and>
          map_of kvs ''variables'' = None)"
      proof
        assume none: "map_of (params req) ''variables'' = None \<and>
          map_of kvs ''variables'' = None"
        then have "json_variables E v0 (JObj kvs) = Inr (JStr [])"
          using no_vars by (simp add: json_variables_absent)
        with Inl show False
          by simp
      qed
      moreover have "post_request E req = Inl h"
        using Inl by (simp add: pr)
      ultimately show ?thesis
        by auto
    next
      case vars: (Inr vars)
      have "vars = JStr []"
        if "map_of (params req) ''variables'' = None \<and> map_of kvs ''variables'' = None"
        using vars that no_vars by (simp add: json_variables_absent)
      with vars show ?thesis
        by (auto simp: pr on_post_def finish_Inr)
    qed
  qed
qed

theorem json_body_query_is_stringified_witness:
  \<open>py_str sample_env (JInt 42) = ''42'' \<and>
   url_query sample_env
     (post_body ''application/json'' [] ''{"query":42,"operationName":7}'') = None \<and>
   post_request sample_env
     (post_body ''application/json'' [] ''{"query":42,"operationName":7}'') =
     Inr (''42'', JStr [], Some ''7'') \<and>
   on_post sample_env
     (post_body ''application/json'' [] ''{"query":42,"operationName":7}'') new_response =
     Inr \<lparr>status = HTTP_400, body = Some ''{"errors":[{"message":"Cannot query field."}]}'',
          headers = Map.empty\<rparr>\<close>
proof -
  let ?req = \<open>post_body ''application/json'' [] ''{"query":42,"operationName":7}''\<close>
  let ?kvs = "[(''query'', JInt 42), (''operationName'', JInt 7)]"
  have ct: "content_type_has ?req ''application/json''"
    by (simp add: content_type_has_def post_body_def)
  have len: "content_length ?req = Some 30" "0 < (30::nat)"
    by (simp_all add: post_body_def)
  have body: \<open>stream ?req = Some ''{"query":42,"operationName":7}''\<close>
    \<open>loads sample_env ''{"query":42,"operationName":7}'' = Inr (JObj ?kvs)\<close>
    by (simp_all add: post_body_def sample_env_def sample_loads_def)
  have url: "url_query sample_env ?req = None" "url_operation_name sample_env ?req = None"
    by (simp_all add: url_query_def url_operation_name_def post_body_def)
  have q: "map_of ?kvs ''query'' = Some (JInt 42)"
    by simp
  have str: "py_str sample_env (JInt 42) = ''42''" "py_str sample_env (JInt 7) = ''7''"
    by (simp_all add: py_str_def str_int_def str_nat.simps)
  have run: \<open>respond (execute sample_env ''42'' (JStr []) opn) new_response =
      Inr \<lparr>status = HTTP_400, body = Some ''{"errors":[{"message":"Cannot query field."}]}'',
           headers = Map.empty\<rparr>\<close> for opn
    by (simp add: respond_def sample_env_def sample_execute_def truthy_errors_def err_msgs_def
        str_error_def errors_body_sample new_response_def del: dumps.simps)
  from json_body_query_is_stringified [OF ct len body url(1) q, of new_response] url str run
  show ?thesis
    by (auto simp: post_body_def)
qed

end
